theory Spec2Isabelle
  imports Main
begin

section \<open>Python values, exceptions and the outside world\<close>

text \<open>
  The model follows \<^verbatim>\<open>Slack_bot_dynamic/bot_storage.py\<close> and
  \<^verbatim>\<open>Slack_bot_dynamic/bot_factory.py\<close>. Every method takes the object it is called
  on and the outside world, and returns both updated; a raised exception is the \<open>Inl\<close>
  branch of the result. The outcome of each call that leaves the process (the file system,
  \<^verbatim>\<open>uuid.uuid4\<close>, the Slack SDK, \<^verbatim>\<open>requests.post\<close>) is an argument of the
  method that makes the call.
\<close>

datatype exn =
    ValueError string
  | AttributeError
  | OSError
  | RuntimeError
  | SlackApiError
  | RequestException
  | HTTPError nat
  | JSONDecodeError

datatype json =
    JNull
  | JBool bool
  | JInt int
  | JStr string
  | JArr "json list"
  | JObj "(string \<times> json) list"

text \<open>Python truthiness of a decoded JSON value, as used by \<^verbatim>\<open>or\<close> and \<^verbatim>\<open>if\<close>.\<close>

fun truthy :: "json \<Rightarrow> bool" where
  "truthy JNull = False"
| "truthy (JBool b) = b"
| "truthy (JInt n) = (n \<noteq> 0)"
| "truthy (JStr s) = (s \<noteq> [])"
| "truthy (JArr xs) = (xs \<noteq> [])"
| "truthy (JObj kvs) = (kvs \<noteq> [])"

text \<open>Truthiness of an optional string: \<^verbatim>\<open>None\<close> and \<^verbatim>\<open>""\<close> are falsy.\<close>

fun truthy_str :: "string option \<Rightarrow> bool" where
  "truthy_str None = False"
| "truthy_str (Some s) = (s \<noteq> [])"

text \<open>
  The text of a message is a Python \<^verbatim>\<open>str\<close>, a sequence of Unicode code points, and
  what \<^verbatim>\<open>strip\<close> removes depends on them: such a text is the list of its code points.
  \<open>codepoints\<close> reads an ASCII literal or identifier as such a text.
\<close>

type_synonym pystr = "nat list"

definition codepoints :: "string \<Rightarrow> pystr" where
  "codepoints s = map of_char s"

text \<open>One stored configuration: the inner dictionary written by \<^verbatim>\<open>save_bot\<close>.\<close>

record config =
  cfg_bot_token :: string
  cfg_app_token :: string
  cfg_signing_secret :: string
  cfg_agent_url :: string
  cfg_channel_id :: "string option"

text \<open>
  The storage file. \<open>NoFile\<close>: \<^verbatim>\<open>os.path.exists\<close> is false. \<open>Unreadable\<close>: opening or
  decoding raises (no permission, truncated or invalid JSON). \<open>Stored m\<close>: the file decodes
  to the mapping \<open>m\<close>, the format \<^verbatim>\<open>_save\<close> writes.
\<close>

datatype file_state =
    NoFile
  | Unreadable
  | Stored "string \<rightharpoonup> config"

text \<open>
  What an attempt to rewrite the file does: it succeeds, or \<^verbatim>\<open>open\<close> or
  \<^verbatim>\<open>json.dump\<close> raises and leaves the file in the given state (untouched when
  \<^verbatim>\<open>open\<close> fails, truncated when the dump fails half way).
\<close>

datatype write_outcome =
    WriteOk
  | WriteFails file_state

datatype log_level = INFO | WARNING | ERROR | PRINT

text \<open>The request body built by \<^verbatim>\<open>_call_agent\<close>.\<close>

record payload =
  p_message :: pystr
  p_user_id :: "string option"
  p_channel_id :: "string option"
  p_thread_id :: "string option"
  p_bot_id :: string

text \<open>
  Everything outside the objects: the storage file, the worker threads started so far (each
  named by the bot whose \<^verbatim>\<open>run_bot\<close> it runs), the log (logger calls and
  \<^verbatim>\<open>print\<close>; the text of a caught exception and the excerpt of a received message
  are left out of the message), the requests
  posted to agent endpoints and the messages delivered by \<^verbatim>\<open>say\<close>.
\<close>

record world =
  disk :: file_state
  threads :: "string list"
  logs :: "(log_level \<times> string) list"
  posts :: "(string \<times> payload) list"
  says :: "(json \<times> string option) list"

definition logger :: "log_level \<Rightarrow> string \<Rightarrow> world \<Rightarrow> world" where
  "logger lvl msg w = w\<lparr>logs := logs w @ [(lvl, msg)]\<rparr>"

section \<open>BotStorage\<close>

record bot_storage =
  configs :: "string \<rightharpoonup> config"

text \<open>\<^verbatim>\<open>_load\<close>: an absent file gives the empty mapping; a failure to read is printed and
  gives the empty mapping too.\<close>

definition BotStorage_load :: "world \<Rightarrow> (string \<rightharpoonup> config) \<times> world" where
  "BotStorage_load w =
     (case disk w of
        NoFile \<Rightarrow> (Map.empty, w)
      | Stored m \<Rightarrow> (m, w)
      | Unreadable \<Rightarrow> (Map.empty, logger PRINT ''Error loading bot configs'' w))"

definition BotStorage_init :: "world \<Rightarrow> bot_storage \<times> world" where
  "BotStorage_init w = (let (m, w') = BotStorage_load w in (\<lparr>configs = m\<rparr>, w'))"

text \<open>\<^verbatim>\<open>_save\<close>: the whole mapping is rewritten; an exception is caught and printed, and
  the method returns normally.\<close>

definition BotStorage_save :: "write_outcome \<Rightarrow> bot_storage \<Rightarrow> world \<Rightarrow> world" where
  "BotStorage_save wr s w =
     (case wr of
        WriteOk \<Rightarrow> w\<lparr>disk := Stored (configs s)\<rparr>
      | WriteFails residue \<Rightarrow> logger PRINT ''Error saving bot configs'' (w\<lparr>disk := residue\<rparr>))"

definition BotStorage_save_bot ::
  "write_outcome \<Rightarrow> string \<Rightarrow> string \<Rightarrow> string \<Rightarrow> string \<Rightarrow> string \<Rightarrow> string option \<Rightarrow>
   bot_storage \<Rightarrow> world \<Rightarrow> bot_storage \<times> world" where
  "BotStorage_save_bot wr bid tok atok sec url chan s w =
     (let s' = s\<lparr>configs := (configs s)(bid \<mapsto>
                  \<lparr>cfg_bot_token = tok, cfg_app_token = atok, cfg_signing_secret = sec,
                   cfg_agent_url = url, cfg_channel_id = chan\<rparr>)\<rparr>
      in (s', BotStorage_save wr s' w))"

definition BotStorage_get_bot :: "string \<Rightarrow> bot_storage \<Rightarrow> config option" where
  "BotStorage_get_bot bid s = configs s bid"

definition BotStorage_delete_bot ::
  "write_outcome \<Rightarrow> string \<Rightarrow> bot_storage \<Rightarrow> world \<Rightarrow> bot_storage \<times> world" where
  "BotStorage_delete_bot wr bid s w =
     (if configs s bid \<noteq> None
      then (let s' = s\<lparr>configs := (configs s)(bid := None)\<rparr> in (s', BotStorage_save wr s' w))
      else (s, w))"

section \<open>BotInstance\<close>

text \<open>The Slack objects a bot holds: the \<^verbatim>\<open>App\<close> keeps the bot token and the signing
  secret it was built from, the \<^verbatim>\<open>SocketModeHandler\<close> the app token.\<close>

record slack_app =
  app_token_of :: string
  app_signing_secret_of :: string

record socket_handler =
  handler_app_token :: string

datatype thread_state = Unstarted | Started

record bot_instance =
  bot_id :: string
  bot_token :: string
  app_token :: string
  signing_secret :: string
  agent_url :: string
  channel_id :: "string option"
  app :: "slack_app option"
  handler :: "socket_handler option"
  thread :: "thread_state option"
  running :: bool
  bot_user_id :: "string option"

definition BotInstance_init ::
  "string \<Rightarrow> string \<Rightarrow> string \<Rightarrow> string \<Rightarrow> string \<Rightarrow> string option \<Rightarrow> world \<Rightarrow>
   bot_instance \<times> world" where
  "BotInstance_init bid tok atok sec url chan w =
     (\<lparr>bot_id = bid, bot_token = tok, app_token = atok, signing_secret = sec,
       agent_url = url, channel_id = chan, app = None, handler = None, thread = None,
       running = False, bot_user_id = None\<rparr>,
      logger INFO (''Bot instance '' @ bid @ '' initialized for agent: '' @ url) w)"

text \<open>
  \<^verbatim>\<open>start\<close>, the caller's side. \<open>app_ctor\<close> is what the \<^verbatim>\<open>App\<close> constructor does
  (\<open>Some e\<close>: it raises \<open>e\<close>), \<open>thread_start\<close> what \<^verbatim>\<open>Thread.start\<close> does.
  The method does not set \<^verbatim>\<open>running\<close> to true: that happens in \<^verbatim>\<open>run_bot\<close>, on
  the worker thread.
\<close>

record start_env =
  app_ctor :: "exn option"
  thread_start :: "exn option"

definition BotInstance_start ::
  "start_env \<Rightarrow> bot_instance \<Rightarrow> world \<Rightarrow> (exn + bool option) \<times> bot_instance \<times> world" where
  "BotInstance_start env b w =
     (if running b
      then (Inr None, b, logger WARNING (''Bot '' @ bot_id b @ '' is already running'') w)
      else (case app_ctor env of
              Some e \<Rightarrow>
                (Inl e, b\<lparr>running := False\<rparr>,
                 logger ERROR (''Failed to start bot '' @ bot_id b) w)
            | None \<Rightarrow>
                (let b1 = b\<lparr>app := Some \<lparr>app_token_of = bot_token b,
                                         app_signing_secret_of = signing_secret b\<rparr>\<rparr>
                 in (case thread_start env of
                       Some e \<Rightarrow>
                         (Inl e, b1\<lparr>thread := Some Unstarted, running := False\<rparr>,
                          logger ERROR (''Failed to start bot '' @ bot_id b) w)
                     | None \<Rightarrow>
                         (Inr (Some True), b1\<lparr>thread := Some Started\<rparr>,
                          w\<lparr>threads := threads w @ [bot_id b]\<rparr>)))))"

text \<open>
  \<^verbatim>\<open>run_bot\<close>, the body of the worker thread up to its blocking call
  \<^verbatim>\<open>self.handler.start()\<close>. \<open>handler_ctor\<close> is what the \<^verbatim>\<open>SocketModeHandler\<close>
  constructor does; when it raises, the thread ends and the bot is left as it was.
\<close>

definition run_bot :: "exn option \<Rightarrow> bot_instance \<Rightarrow> world \<Rightarrow> bot_instance \<times> world" where
  "run_bot handler_ctor b w =
     (case handler_ctor of
        Some e \<Rightarrow> (b, w)
      | None \<Rightarrow>
          (b\<lparr>handler := Some \<lparr>handler_app_token = app_token b\<rparr>, running := True\<rparr>,
           logger INFO (''Bot '' @ bot_id b @ '' started'') w))"

text \<open>\<^verbatim>\<open>stop\<close>. \<open>close_outcome\<close> is what \<^verbatim>\<open>self.handler.close()\<close> does. The method
  never raises and returns nothing.\<close>

definition BotInstance_stop :: "exn option \<Rightarrow> bot_instance \<Rightarrow> world \<Rightarrow> bot_instance \<times> world" where
  "BotInstance_stop close_outcome b w =
     (if \<not> running b then (b, w)
      else (case handler b of
              None \<Rightarrow> (b\<lparr>running := False\<rparr>, logger INFO (''Bot '' @ bot_id b @ '' stopped'') w)
            | Some h \<Rightarrow>
                (case close_outcome of
                   None \<Rightarrow>
                     (b\<lparr>running := False\<rparr>, logger INFO (''Bot '' @ bot_id b @ '' stopped'') w)
                 | Some e \<Rightarrow> (b, logger ERROR (''Error stopping bot '' @ bot_id b) w))))"

subsection \<open>The call to the agent endpoint\<close>

text \<open>What \<^verbatim>\<open>requests.post\<close> does: it raises (timeout, no connection), or gives a response
  with a status code and a body that decodes as JSON or does not.\<close>

datatype http_result =
    PostRaises exn
  | Response nat "json option"

text \<open>\<^verbatim>\<open>dict.get\<close> on a decoded object: of two members with one key the decoder keeps the
  later.\<close>

definition dict_get :: "(string \<times> json) list \<Rightarrow> string \<Rightarrow> json option" where
  "dict_get kvs k = map_of (rev kvs) k"

text \<open>Line 116,
  \<^verbatim>\<open>data.get("response") or data.get("message") or data.get("text", "")\<close>.
  A missing key reads as \<^verbatim>\<open>None\<close> for the first two and as \<^verbatim>\<open>""\<close> for the third; a
  body that is not an object has no \<^verbatim>\<open>get\<close>.\<close>

fun reply_of_data :: "json \<Rightarrow> exn + json" where
  "reply_of_data (JObj kvs) =
     (let r = (case dict_get kvs ''response'' of None \<Rightarrow> JNull | Some v \<Rightarrow> v);
          m = (case dict_get kvs ''message'' of None \<Rightarrow> JNull | Some v \<Rightarrow> v);
          t = (case dict_get kvs ''text'' of None \<Rightarrow> JStr [] | Some v \<Rightarrow> v)
      in Inr (if truthy r then r else if truthy m then m else t))"
| "reply_of_data _ = Inl AttributeError"

definition BotInstance_call_agent ::
  "http_result \<Rightarrow> bot_instance \<Rightarrow> pystr \<Rightarrow> string option \<Rightarrow> string option \<Rightarrow> string option \<Rightarrow>
   world \<Rightarrow> (exn + json) \<times> world" where
  "BotInstance_call_agent http b message user channel thread_ts w =
     (let pl = \<lparr>p_message = message, p_user_id = user, p_channel_id = channel,
                p_thread_id = thread_ts, p_bot_id = bot_id b\<rparr>;
          w1 = w\<lparr>posts := posts w @ [(agent_url b, pl)]\<rparr>;
          r = (case http of
                 PostRaises e \<Rightarrow> Inl e
               | Response status body \<Rightarrow>
                   if 400 \<le> status \<and> status < 600 then Inl (HTTPError status)
                   else (case body of
                           None \<Rightarrow> Inl JSONDecodeError
                         | Some data \<Rightarrow> reply_of_data data))
      in (case r of
            Inl e \<Rightarrow> (Inl e, logger ERROR (''Agent call failed for bot '' @ bot_id b) w1)
          | Inr v \<Rightarrow> (Inr v, w1)))"

subsection \<open>Inbound events\<close>

text \<open>A Slack event, with the keys the handlers read; \<open>None\<close> is an absent key.\<close>

record event =
  ev_user :: "string option"
  ev_text :: "pystr option"
  ev_channel :: "string option"
  ev_thread_ts :: "string option"
  ev_ts :: "string option"
  ev_subtype :: "string option"
  ev_bot_id :: "string option"
  ev_channel_type :: "string option"

text \<open>
  \<^verbatim>\<open>re.sub(pattern, repl, text)\<close> for a pattern without regular-expression
  metacharacters: every occurrence of the pattern, found from the left and not overlapping,
  is replaced. The pattern built by the handler is \<^verbatim>\<open><@ID>\<close>; \<open>regex_literal\<close> says
  that the identity \<open>ID\<close> has no metacharacter, which holds of Slack user ids (capital
  letters and digits).
\<close>

function re_sub :: "pystr \<Rightarrow> pystr \<Rightarrow> pystr \<Rightarrow> pystr" where
  "re_sub pat repl [] = (if pat = [] then repl else [])"
| "re_sub pat repl (c # cs) =
     (if pat = [] then repl @ c # re_sub pat repl cs
      else if take (length pat) (c # cs) = pat
           then repl @ re_sub pat repl (drop (length pat) (c # cs))
           else c # re_sub pat repl cs)"
  by pat_completeness auto
termination
  by (relation "measure (\<lambda>(pat, repl, s). length s)") auto

definition regex_literal :: "string \<Rightarrow> bool" where
  "regex_literal s = (\<forall>c \<in> set s. c \<notin> set (CHR 0x5C # ''.^$*+?{}[]|()''))"

text \<open>
  \<^verbatim>\<open>str.isspace\<close> on one code point, the test \<^verbatim>\<open>str.strip()\<close> applies at both ends:
  the ASCII controls U+0009 to U+000D and U+001C to U+001F, the space, U+0085, U+00A0,
  U+1680, U+2000 to U+200A, U+2028, U+2029, U+202F, U+205F and U+3000.
\<close>

definition py_isspace :: "nat \<Rightarrow> bool" where
  "py_isspace n =
     ((0x09 \<le> n \<and> n \<le> 0x0D) \<or> (0x1C \<le> n \<and> n \<le> 0x20) \<or> n = 0x85 \<or> n = 0xA0
      \<or> n = 0x1680 \<or> (0x2000 \<le> n \<and> n \<le> 0x200A) \<or> n = 0x2028 \<or> n = 0x2029
      \<or> n = 0x202F \<or> n = 0x205F \<or> n = 0x3000)"

definition py_strip :: "pystr \<Rightarrow> pystr" where
  "py_strip s = rev (dropWhile py_isspace (rev (dropWhile py_isspace s)))"

text \<open>\<^verbatim>\<open>say(text=..., thread_ts=...)\<close>: the message is delivered, or the call raises.\<close>

definition say :: "exn option \<Rightarrow> json \<Rightarrow> string option \<Rightarrow> world \<Rightarrow> (exn + unit) \<times> world" where
  "say outcome txt thread_ts w =
     (case outcome of
        Some e \<Rightarrow> (Inl e, w)
      | None \<Rightarrow> (Inr (), w\<lparr>says := says w @ [(txt, thread_ts)]\<rparr>))"

text \<open>What the outside does during one event: \<^verbatim>\<open>client.auth_test()\<close> (the user id, or
  an exception), the agent endpoint, and the two calls of \<^verbatim>\<open>say\<close>.\<close>

record handler_env =
  auth_test :: "exn + string"
  http :: http_result
  say_reply :: "exn option"
  say_apology :: "exn option"

text \<open>The text the handler goes on with (lines 69 to 72): a mention is cleaned of the bot's
  own mention token and stripped, when the bot has an identity.\<close>

definition clean_text :: "bool \<Rightarrow> string option \<Rightarrow> pystr \<Rightarrow> pystr" where
  "clean_text is_mention uid txt =
     (case uid of
        None \<Rightarrow> txt
      | Some u \<Rightarrow>
          if is_mention \<and> u \<noteq> []
          then py_strip (re_sub (codepoints (''<@'' @ u @ ''>'')) [] txt)
          else txt)"

definition BotInstance_handle_message ::
  "handler_env \<Rightarrow> bot_instance \<Rightarrow> event \<Rightarrow> bool \<Rightarrow> world \<Rightarrow> bot_instance \<times> world" where
  "BotInstance_handle_message env b ev is_mention w =
     (let user = ev_user ev;
          text0 = (case ev_text ev of None \<Rightarrow> [] | Some t \<Rightarrow> t);
          channel = ev_channel ev;
          thread_ts = (if truthy_str (ev_thread_ts ev) then ev_thread_ts ev else ev_ts ev);
          outer = (\<lambda>b' w'. (b', logger ERROR (''Error handling message for bot '' @ bot_id b) w'))
      in (case (if \<not> truthy_str (bot_user_id b)
                then (case auth_test env of
                        Inl e \<Rightarrow> Inl e
                      | Inr uid \<Rightarrow> Inr (b\<lparr>bot_user_id := Some uid\<rparr>))
                else Inr b) of
            Inl e \<Rightarrow> outer b w
          | Inr b1 \<Rightarrow>
              (let txt = clean_text is_mention (bot_user_id b1) text0
               in if txt = [] then (b1, w)
                  else (let w1 = logger INFO (''Bot '' @ bot_id b @ '' received message'') w;
                            apology = (\<lambda>w'.
                              (case say (say_apology env)
                                      (JStr ''Sorry, I encountered an error processing your request.'')
                                      thread_ts
                                      (logger ERROR (''Error calling agent for bot '' @ bot_id b) w') of
                                 (Inl e, w'') \<Rightarrow> outer b1 w''
                               | (Inr u, w'') \<Rightarrow> (b1, w'')))
                        in (case BotInstance_call_agent (http env) b1 txt user channel thread_ts w1 of
                              (Inl e, w2) \<Rightarrow> apology w2
                            | (Inr response, w2) \<Rightarrow>
                                if truthy response
                                then (case say (say_reply env) response thread_ts w2 of
                                        (Inl e, w3) \<Rightarrow> apology w3
                                      | (Inr u, w3) \<Rightarrow>
                                          (b1, logger INFO (''Bot '' @ bot_id b @ '' sent response'') w3))
                                else (b1, w2))))))"

text \<open>The two handlers registered by \<^verbatim>\<open>_setup_handlers\<close>.\<close>

definition handle_mention ::
  "handler_env \<Rightarrow> bot_instance \<Rightarrow> event \<Rightarrow> world \<Rightarrow> bot_instance \<times> world" where
  "handle_mention env b ev w = BotInstance_handle_message env b ev True w"

definition handle_message ::
  "handler_env \<Rightarrow> bot_instance \<Rightarrow> event \<Rightarrow> world \<Rightarrow> bot_instance \<times> world" where
  "handle_message env b ev w =
     (if truthy_str (ev_subtype ev) \<or> truthy_str (ev_bot_id ev) then (b, w)
      else if ev_channel_type ev = Some ''im''
              \<or> (truthy_str (channel_id b) \<and> ev_channel ev = channel_id b)
           then BotInstance_handle_message env b ev False w
           else (b, w))"

section \<open>BotFactory\<close>

record bot_factory =
  bots :: "string \<rightharpoonup> bot_instance"
  persist :: bool
  storage :: "bot_storage option"

text \<open>The constructor: the registry starts empty; with persistence a \<^verbatim>\<open>BotStorage\<close> is
  built, which reads the file. Without persistence the object has no \<^verbatim>\<open>storage\<close>
  attribute (\<open>None\<close>).\<close>

definition BotFactory_init :: "bool \<Rightarrow> world \<Rightarrow> bot_factory \<times> world" where
  "BotFactory_init p w =
     (if p
      then (let (s, w1) = BotStorage_init w
            in (\<lparr>bots = Map.empty, persist = p, storage = Some s\<rparr>,
                logger INFO ''Bot Factory initialized'' w1))
      else (\<lparr>bots = Map.empty, persist = p, storage = None\<rparr>,
            logger INFO ''Bot Factory initialized'' w))"

text \<open>What the outside does during \<^verbatim>\<open>create_bot\<close>: the hexadecimal digits of
  \<^verbatim>\<open>uuid.uuid4()\<close>, read only when no id is given, and the attempt to write the file.\<close>

record create_env =
  uuid_hex :: string
  save_outcome :: write_outcome

text \<open>\<^verbatim>\<open>create_bot\<close>. An id that is \<^verbatim>\<open>None\<close> or empty counts as not given. The new
  instance enters the registry before the configuration is saved.\<close>

definition create_bot ::
  "create_env \<Rightarrow> bot_factory \<Rightarrow> string \<Rightarrow> string \<Rightarrow> string \<Rightarrow> string \<Rightarrow> string option \<Rightarrow>
   string option \<Rightarrow> world \<Rightarrow> (exn + string) \<times> bot_factory \<times> world" where
  "create_bot env f tok atok sec url chan bid_opt w =
     (let bid = (if truthy_str bid_opt then (case bid_opt of Some i \<Rightarrow> i | None \<Rightarrow> [])
                 else ''bot_'' @ take 8 (uuid_hex env))
      in if bots f bid \<noteq> None
         then (Inl (ValueError (''Bot '' @ bid @ '' already exists'')), f, w)
         else (let (b, w1) = BotInstance_init bid tok atok sec url chan w;
                   f1 = f\<lparr>bots := (bots f)(bid \<mapsto> b)\<rparr>;
                   created = logger INFO (''Created bot '' @ bid @ '' for agent '' @ url)
               in if persist f1
                  then (case storage f1 of
                          None \<Rightarrow> (Inl AttributeError, f1, w1)
                        | Some s \<Rightarrow>
                            (let (s', w2) = BotStorage_save_bot (save_outcome env)
                                              bid tok atok sec url chan s w1
                             in (Inr bid, f1\<lparr>storage := Some s'\<rparr>, created w2)))
                  else (Inr bid, f1, created w1)))"

text \<open>\<^verbatim>\<open>start_bot\<close> and \<^verbatim>\<open>stop_bot\<close>: both raise on an id that is not registered. The
  instance is changed in place, so the registry holds it as the call left it, also when
  \<^verbatim>\<open>start\<close> raises.\<close>

definition start_bot ::
  "start_env \<Rightarrow> bot_factory \<Rightarrow> string \<Rightarrow> world \<Rightarrow> (exn + unit) \<times> bot_factory \<times> world" where
  "start_bot env f bid w =
     (case bots f bid of
        None \<Rightarrow> (Inl (ValueError (''Bot '' @ bid @ '' not found'')), f, w)
      | Some b \<Rightarrow>
          (case BotInstance_start env b w of
             (Inl e, b', w') \<Rightarrow> (Inl e, f\<lparr>bots := (bots f)(bid \<mapsto> b')\<rparr>, w')
           | (Inr r, b', w') \<Rightarrow> (Inr (), f\<lparr>bots := (bots f)(bid \<mapsto> b')\<rparr>, w')))"

definition stop_bot ::
  "exn option \<Rightarrow> bot_factory \<Rightarrow> string \<Rightarrow> world \<Rightarrow> (exn + unit) \<times> bot_factory \<times> world" where
  "stop_bot close_outcome f bid w =
     (case bots f bid of
        None \<Rightarrow> (Inl (ValueError (''Bot '' @ bid @ '' not found'')), f, w)
      | Some b \<Rightarrow>
          (let (b', w') = BotInstance_stop close_outcome b w
           in (Inr (), f\<lparr>bots := (bots f)(bid \<mapsto> b')\<rparr>, w')))"

text \<open>The step of the worker thread of a registered bot: \<^verbatim>\<open>run_bot\<close> acting on the
  instance the registry holds. Its thread is gone with the instance when the id has been
  deleted.\<close>

definition worker_step :: "exn option \<Rightarrow> bot_factory \<Rightarrow> string \<Rightarrow> world \<Rightarrow> bot_factory \<times> world" where
  "worker_step handler_ctor f bid w =
     (case bots f bid of
        None \<Rightarrow> (f, w)
      | Some b \<Rightarrow>
          (let (b', w') = run_bot handler_ctor b w
           in (f\<lparr>bots := (bots f)(bid \<mapsto> b')\<rparr>, w')))"

text \<open>\<^verbatim>\<open>delete_bot\<close>: nothing happens for an id that is not registered.\<close>

definition delete_bot ::
  "exn option \<Rightarrow> write_outcome \<Rightarrow> bot_factory \<Rightarrow> string \<Rightarrow> world \<Rightarrow>
   (exn + unit) \<times> bot_factory \<times> world" where
  "delete_bot close_outcome wr f bid w =
     (if bots f bid \<noteq> None
      then (case stop_bot close_outcome f bid w of
              (Inl e, f1, w1) \<Rightarrow> (Inl e, f1, w1)
            | (Inr u, f1, w1) \<Rightarrow>
                (let f2 = f1\<lparr>bots := (bots f1)(bid := None)\<rparr>;
                     deleted = logger INFO (''Deleted bot '' @ bid)
                 in if persist f2
                    then (case storage f2 of
                            None \<Rightarrow> (Inl AttributeError, f2, w1)
                          | Some s \<Rightarrow>
                              (let (s', w2) = BotStorage_delete_bot wr bid s w1
                               in (Inr (), f2\<lparr>storage := Some s'\<rparr>, deleted w2)))
                    else (Inr (), f2, deleted w1)))
      else (Inr (), f, w))"

text \<open>\<^verbatim>\<open>list_bots\<close>: one status per registered id, with the three keys of the inner
  dictionary.\<close>

record bot_status =
  st_agent_url :: string
  st_channel_id :: "string option"
  st_running :: bool

definition list_bots :: "bot_factory \<Rightarrow> (string \<rightharpoonup> bot_status)" where
  "list_bots f =
     (\<lambda>bid. case bots f bid of
               None \<Rightarrow> None
             | Some b \<Rightarrow> Some \<lparr>st_agent_url = agent_url b, st_channel_id = channel_id b,
                               st_running = running b\<rparr>)"

section \<open>Dictionaries as objects: \<^verbatim>\<open>get_all\<close>\<close>

text \<open>
  \<^verbatim>\<open>get_all\<close> returns \<^verbatim>\<open>self.configs.copy()\<close>. What a caller can do to the Store
  through the returned dictionary depends on which dictionaries are the same object, so here
  the dictionaries live in a heap: an address holds a dictionary, a value is \<^verbatim>\<open>None\<close>, a
  string or a reference to a dictionary. \<open>next_addr\<close> is the first address not yet
  allocated. The Store's \<^verbatim>\<open>configs\<close> is a dictionary from ids to references to the
  inner dictionaries built by \<^verbatim>\<open>save_bot\<close>.
\<close>

type_synonym addr = nat

datatype pyval = PyNone | PyStr string | PyRef addr

type_synonym pydict = "string \<rightharpoonup> pyval"

record heap_world = world +
  objs :: "addr \<Rightarrow> pydict"
  next_addr :: addr

text \<open>\<^verbatim>\<open>dict.copy()\<close>: a new dictionary with the same keys and the same values, references
  included (a shallow copy).\<close>

definition dict_copy :: "addr \<Rightarrow> heap_world \<Rightarrow> addr \<times> heap_world" where
  "dict_copy a h =
     (let r = next_addr h
      in (r, h\<lparr>objs := (objs h)(r := objs h a), next_addr := Suc r\<rparr>))"

definition BotStorage_get_all :: "addr \<Rightarrow> heap_world \<Rightarrow> addr \<times> heap_world" where
  "BotStorage_get_all self_configs h = dict_copy self_configs h"

text \<open>
  What a caller does to the dictionary at address \<open>r\<close>: \<^verbatim>\<open>d[k] = v\<close> with a value at
  hand, \<^verbatim>\<open>d[k] = {...}\<close> with a dictionary built for the purpose, \<^verbatim>\<open>del d[k]\<close>
  (which changes nothing when the key is absent) and \<^verbatim>\<open>d.clear()\<close>.
\<close>

datatype dict_op =
    SetItem string pyval
  | SetItemNew string pydict
  | DelItem string
  | Clear

fun dict_apply :: "addr \<Rightarrow> heap_world \<Rightarrow> dict_op \<Rightarrow> heap_world" where
  "dict_apply r h (SetItem k v) = h\<lparr>objs := (objs h)(r := (objs h r)(k \<mapsto> v))\<rparr>"
| "dict_apply r h (SetItemNew k d) =
     (let n = next_addr h;
          h1 = h\<lparr>objs := (objs h)(n := d), next_addr := Suc n\<rparr>
      in h1\<lparr>objs := (objs h1)(r := (objs h1 r)(k \<mapsto> PyRef n))\<rparr>)"
| "dict_apply r h (DelItem k) = h\<lparr>objs := (objs h)(r := (objs h r)(k := None))\<rparr>"
| "dict_apply r h Clear = h\<lparr>objs := (objs h)(r := Map.empty)\<rparr>"

definition dict_ops :: "addr \<Rightarrow> dict_op list \<Rightarrow> heap_world \<Rightarrow> heap_world" where
  "dict_ops r ops h = foldl (dict_apply r) h ops"

text \<open>The configurations the Store holds, read off the heap: the value of \<open>configs\<close> in
  the record \<open>bot_storage\<close> above.\<close>

definition str_field :: "pydict \<Rightarrow> string \<Rightarrow> string option" where
  "str_field d k = (case d k of Some (PyStr s) \<Rightarrow> Some s | _ \<Rightarrow> None)"

definition config_of :: "pydict \<Rightarrow> config option" where
  "config_of d =
     (case (str_field d ''bot_token'', str_field d ''app_token'',
            str_field d ''signing_secret'', str_field d ''agent_url'') of
        (Some t, Some a, Some s, Some u) \<Rightarrow>
          Some \<lparr>cfg_bot_token = t, cfg_app_token = a, cfg_signing_secret = s,
                cfg_agent_url = u, cfg_channel_id = str_field d ''channel_id''\<rparr>
      | _ \<Rightarrow> None)"

definition store_configs :: "heap_world \<Rightarrow> addr \<Rightarrow> (string \<rightharpoonup> config)" where
  "store_configs h a =
     (\<lambda>k. case objs h a k of Some (PyRef r) \<Rightarrow> config_of (objs h r) | _ \<Rightarrow> None)"

text \<open>No allocated dictionary refers to an address that is not allocated.\<close>

definition heap_closed :: "heap_world \<Rightarrow> bool" where
  "heap_closed h =
     (\<forall>a k r. a < next_addr h \<and> objs h a k = Some (PyRef r) \<longrightarrow> r < next_addr h)"

section \<open>Secrets\<close>

text \<open>A bot with its three secrets blanked, also where the Slack objects keep them.\<close>

definition erase_secrets :: "bot_instance \<Rightarrow> bot_instance" where
  "erase_secrets b =
     b\<lparr>bot_token := [], app_token := [], signing_secret := [],
       app := map_option (\<lambda>a. \<lparr>app_token_of = [], app_signing_secret_of = []\<rparr>) (app b),
       handler := map_option (\<lambda>h. \<lparr>handler_app_token = []\<rparr>) (handler b)\<rparr>"

section \<open>A run of the service\<close>

text \<open>A factory with persistence and an empty file; the bot \<open>c1\<close> is created, started, and
  its worker reaches the point where it marks the bot running.\<close>

definition ex_world :: world where
  "ex_world = \<lparr>disk = NoFile, threads = [], logs = [], posts = [], says = []\<rparr>"

definition ex_factory :: bot_factory where
  "ex_factory = \<lparr>bots = Map.empty, persist = True, storage = Some \<lparr>configs = Map.empty\<rparr>\<rparr>"

definition ex_bot :: bot_instance where
  "ex_bot = \<lparr>bot_id = ''c1'', bot_token = ''xoxb-1'', app_token = ''xapp-1'',
     signing_secret = ''sec-1'', agent_url = ''http://agent'',
     channel_id = None, app = None, handler = None, thread = None,
     running = False, bot_user_id = None\<rparr>"

definition ex_config :: config where
  "ex_config = \<lparr>cfg_bot_token = ''xoxb-1'', cfg_app_token = ''xapp-1'',
     cfg_signing_secret = ''sec-1'', cfg_agent_url = ''http://agent'', cfg_channel_id = None\<rparr>"

definition ex_created :: "(exn + string) \<times> bot_factory \<times> world" where
  "ex_created =
     create_bot \<lparr>uuid_hex = ''0123456789abcdef0123456789abcdef'', save_outcome = WriteOk\<rparr>
       ex_factory ''xoxb-1'' ''xapp-1'' ''sec-1'' ''http://agent'' None (Some ''c1'') ex_world"

definition ex_started :: "(exn + unit) \<times> bot_factory \<times> world" where
  "ex_started =
     start_bot \<lparr>app_ctor = None, thread_start = None\<rparr>
       (fst (snd ex_created)) ''c1'' (snd (snd ex_created))"

definition ex_running :: "bot_factory \<times> world" where
  "ex_running = worker_step None (fst (snd ex_started)) ''c1'' (snd (snd ex_started))"

definition ex_bot_started :: bot_instance where
  "ex_bot_started =
     ex_bot\<lparr>app := Some \<lparr>app_token_of = ''xoxb-1'', app_signing_secret_of = ''sec-1''\<rparr>,
            thread := Some Started\<rparr>"

definition ex_bot_running :: bot_instance where
  "ex_bot_running =
     ex_bot_started\<lparr>handler := Some \<lparr>handler_app_token = ''xapp-1''\<rparr>, running := True\<rparr>"

text \<open>The same registry with other secrets.\<close>

definition ex_factory_other :: bot_factory where
  "ex_factory_other =
     \<lparr>bots = [''c1'' \<mapsto> ex_bot\<lparr>bot_token := ''xoxb-9'', app_token := ''xapp-9'',
                               signing_secret := ''sec-9''\<rparr>],
      persist = True, storage = Some \<lparr>configs = Map.empty\<rparr>\<rparr>"

text \<open>A heap holding the Store's dictionary at address 0 and the configuration of \<open>c1\<close>
  at address 1.\<close>

definition ex_heap :: heap_world where
  "ex_heap =
     \<lparr>disk = Stored [''c1'' \<mapsto> ex_config], threads = [], logs = [], posts = [], says = [],
      objs = (\<lambda>a. Map.empty)
               (0 := [''c1'' \<mapsto> PyRef 1],
                1 := [''bot_token'' \<mapsto> PyStr ''xoxb-1'', ''app_token'' \<mapsto> PyStr ''xapp-1'',
                      ''signing_secret'' \<mapsto> PyStr ''sec-1'',
                      ''agent_url'' \<mapsto> PyStr ''http://agent'', ''channel_id'' \<mapsto> PyNone]),
      next_addr = 2\<rparr>"

definition ex_ops :: "dict_op list" where
  "ex_ops = [SetItem ''c2'' (PyRef 1), SetItemNew ''c1'' [''agent_url'' \<mapsto> PyStr ''http://evil''],
             DelItem ''c2'', Clear]"

section \<open>The run, evaluated\<close>

lemma ex_created_eq:
  "ex_created =
     (Inr ''c1'',
      \<lparr>bots = [''c1'' \<mapsto> ex_bot], persist = True,
        storage = Some \<lparr>configs = [''c1'' \<mapsto> ex_config]\<rparr>\<rparr>,
      \<lparr>disk = Stored [''c1'' \<mapsto> ex_config], threads = [],
        logs = [(INFO, ''Bot instance c1 initialized for agent: http://agent''),
                (INFO, ''Created bot c1 for agent http://agent'')],
        posts = [], says = []\<rparr>)"
  by (simp add: ex_created_def ex_factory_def ex_world_def ex_bot_def ex_config_def create_bot_def
      BotInstance_init_def BotStorage_save_bot_def BotStorage_save_def logger_def Let_def)

lemma ex_started_eq:
  "ex_started =
     (Inr (),
      \<lparr>bots = [''c1'' \<mapsto> ex_bot_started], persist = True,
        storage = Some \<lparr>configs = [''c1'' \<mapsto> ex_config]\<rparr>\<rparr>,
      \<lparr>disk = Stored [''c1'' \<mapsto> ex_config], threads = [''c1''],
        logs = [(INFO, ''Bot instance c1 initialized for agent: http://agent''),
                (INFO, ''Created bot c1 for agent http://agent'')],
        posts = [], says = []\<rparr>)"
  by (simp add: ex_started_def ex_created_eq start_bot_def BotInstance_start_def ex_bot_def
      ex_bot_started_def Let_def)

lemma ex_running_eq:
  "ex_running =
     (\<lparr>bots = [''c1'' \<mapsto> ex_bot_running], persist = True,
        storage = Some \<lparr>configs = [''c1'' \<mapsto> ex_config]\<rparr>\<rparr>,
      \<lparr>disk = Stored [''c1'' \<mapsto> ex_config], threads = [''c1''],
        logs = [(INFO, ''Bot instance c1 initialized for agent: http://agent''),
                (INFO, ''Created bot c1 for agent http://agent''),
                (INFO, ''Bot c1 started'')],
        posts = [], says = []\<rparr>)"
  by (simp add: ex_running_def ex_started_eq worker_step_def run_bot_def ex_bot_def
      ex_bot_started_def ex_bot_running_def logger_def Let_def)

lemma ex_bot_running_fields:
  "running ex_bot_running" "handler ex_bot_running = Some \<lparr>handler_app_token = ''xapp-1''\<rparr>"
  "bot_id ex_bot_running = ''c1''" "bot_user_id ex_bot_running = None"
  by (simp_all add: ex_bot_running_def ex_bot_started_def ex_bot_def)

section \<open>Creating a connection\<close>

text \<open>
  C1, as stated, fails. With persistence on and a write that fails (here \<^verbatim>\<open>open\<close> raises
  and no file appears), \<^verbatim>\<open>create_bot\<close> returns the id \<open>c1\<close> and no error, and the
  registry holds \<open>c1\<close>, while the file holds nothing.
\<close>

theorem create_write_failure_counterexample:
  "fst (create_bot \<lparr>uuid_hex = ''0123456789abcdef0123456789abcdef'',
                    save_outcome = WriteFails NoFile\<rparr>
          ex_factory ''xoxb-1'' ''xapp-1'' ''sec-1'' ''http://agent'' None (Some ''c1'') ex_world)
     = Inr ''c1''
   \<and> bots (fst (snd (create_bot \<lparr>uuid_hex = ''0123456789abcdef0123456789abcdef'',
                    save_outcome = WriteFails NoFile\<rparr>
          ex_factory ''xoxb-1'' ''xapp-1'' ''sec-1'' ''http://agent'' None (Some ''c1'') ex_world)))
        ''c1'' = Some ex_bot
   \<and> disk (snd (snd (create_bot \<lparr>uuid_hex = ''0123456789abcdef0123456789abcdef'',
                    save_outcome = WriteFails NoFile\<rparr>
          ex_factory ''xoxb-1'' ''xapp-1'' ''sec-1'' ''http://agent'' None (Some ''c1'') ex_world)))
       = NoFile"
  by (simp add: ex_factory_def ex_world_def ex_bot_def create_bot_def
      BotInstance_init_def BotStorage_save_bot_def BotStorage_save_def logger_def Let_def)

text \<open>
  C1, amended. With persistence on, when the write to the file fails during the creation of
  an id that is not registered, no error reaches the caller: \<^verbatim>\<open>create_bot\<close> returns the
  id, the registry holds the new connection (not running), the Store's mapping in memory
  holds its configuration, the failure is printed, and the file is as the failed write left
  it. The id is the one given, or \<^verbatim>\<open>bot_\<close> and eight digits of the uuid when none is.
\<close>

theorem create_write_failure_swallowed:
  assumes "persist f" and "storage f = Some s" and "bots f bid = None"
    and "bid_opt = Some bid \<and> bid \<noteq> [] \<or>
         \<not> truthy_str bid_opt \<and> bid = ''bot_'' @ take 8 (uuid_hex env)"
    and "save_outcome env = WriteFails residue"
  shows "create_bot env f tok atok sec url chan bid_opt w =
           (Inr bid,
            f\<lparr>bots := (bots f)(bid \<mapsto>
                 \<lparr>bot_id = bid, bot_token = tok, app_token = atok, signing_secret = sec,
                  agent_url = url, channel_id = chan, app = None, handler = None, thread = None,
                  running = False, bot_user_id = None\<rparr>),
              storage := Some (s\<lparr>configs := (configs s)(bid \<mapsto>
                 \<lparr>cfg_bot_token = tok, cfg_app_token = atok, cfg_signing_secret = sec,
                  cfg_agent_url = url, cfg_channel_id = chan\<rparr>)\<rparr>)\<rparr>,
            w\<lparr>disk := residue,
              logs := logs w @
                [(INFO, ''Bot instance '' @ bid @ '' initialized for agent: '' @ url),
                 (PRINT, ''Error saving bot configs''),
                 (INFO, ''Created bot '' @ bid @ '' for agent '' @ url)]\<rparr>)"
  using assms
  by (auto simp: create_bot_def BotInstance_init_def BotStorage_save_bot_def BotStorage_save_def
      logger_def Let_def)

theorem create_write_failure_swallowed_witness:
  "persist ex_factory \<and> storage ex_factory = Some \<lparr>configs = Map.empty\<rparr>
   \<and> bots ex_factory ''bot_01234567'' = None
   \<and> create_bot \<lparr>uuid_hex = ''0123456789abcdef0123456789abcdef'',
                  save_outcome = WriteFails Unreadable\<rparr>
        ex_factory ''xoxb-1'' ''xapp-1'' ''sec-1'' ''http://agent'' None None ex_world =
       (Inr ''bot_01234567'',
        \<lparr>bots = [''bot_01234567'' \<mapsto> ex_bot\<lparr>bot_id := ''bot_01234567''\<rparr>], persist = True,
          storage = Some \<lparr>configs = [''bot_01234567'' \<mapsto> ex_config]\<rparr>\<rparr>,
        \<lparr>disk = Unreadable, threads = [],
          logs = [(INFO, ''Bot instance bot_01234567 initialized for agent: http://agent''),
                  (PRINT, ''Error saving bot configs''),
                  (INFO, ''Created bot bot_01234567 for agent http://agent'')],
          posts = [], says = []\<rparr>)"
proof -
  have h: "persist ex_factory" "storage ex_factory = Some \<lparr>configs = Map.empty\<rparr>"
    "bots ex_factory ''bot_01234567'' = None"
    by (simp_all add: ex_factory_def)
  have i: "None = Some ''bot_01234567'' \<and> ''bot_01234567'' \<noteq> [] \<or>
           \<not> truthy_str None \<and> ''bot_01234567'' = ''bot_'' @ take 8
             (uuid_hex \<lparr>uuid_hex = ''0123456789abcdef0123456789abcdef'',
                        save_outcome = WriteFails Unreadable\<rparr>)"
    by simp
  have o: "save_outcome \<lparr>uuid_hex = ''0123456789abcdef0123456789abcdef'',
                        save_outcome = WriteFails Unreadable\<rparr> = WriteFails Unreadable"
    by simp
  show ?thesis
    using h create_write_failure_swallowed [OF h i o, of "''xoxb-1''" "''xapp-1''" "''sec-1''"
        "''http://agent''" None ex_world]
    by (simp add: ex_factory_def ex_world_def ex_bot_def ex_config_def)
qed

text \<open>
  C6. For every registry and every explicit id (a non-empty string) that is registered,
  \<^verbatim>\<open>create_bot\<close> with that id raises \<^verbatim>\<open>ValueError\<close> "already exists" and leaves the
  factory (registry and Store) and the world (file, log) as they were.
\<close>

theorem create_existing_id_fails:
  assumes "bots f i \<noteq> None" and "i \<noteq> []"
  shows "create_bot env f tok atok sec url chan (Some i) w =
           (Inl (ValueError (''Bot '' @ i @ '' already exists'')), f, w)"
  using assms by (simp add: create_bot_def)

theorem create_existing_id_fails_witness:
  "bots (fst (snd ex_created)) ''c1'' \<noteq> None \<and> ''c1'' \<noteq> [] \<and>
   create_bot \<lparr>uuid_hex = ''ffffffffffffffffffffffffffffffff'', save_outcome = WriteOk\<rparr>
       (fst (snd ex_created)) ''xoxb-2'' ''xapp-2'' ''sec-2'' ''http://other'' None (Some ''c1'')
       (snd (snd ex_created)) =
     (Inl (ValueError ''Bot c1 already exists''), fst (snd ex_created), snd (snd ex_created))"
proof -
  have h: "bots (fst (snd ex_created)) ''c1'' \<noteq> None"
    by (simp add: ex_created_eq)
  have n: "''c1'' \<noteq> []" by simp
  show ?thesis
    using h create_existing_id_fails [OF h n, of
        "\<lparr>uuid_hex = ''ffffffffffffffffffffffffffffffff'', save_outcome = WriteOk\<rparr>"
        "''xoxb-2''" "''xapp-2''" "''sec-2''" "''http://other''" None "snd (snd ex_created)"]
    by simp
qed

text \<open>An id made by \<^verbatim>\<open>create_bot\<close> is never empty, so the empty string is never
  registered by it.\<close>

lemma create_bot_id_nonempty:
  assumes "fst (create_bot env f tok atok sec url chan bid_opt w) = Inr bid"
  shows "bid \<noteq> []"
  using assms
  by (cases bid_opt)
    (auto simp: create_bot_def BotInstance_init_def BotStorage_save_bot_def Let_def
      split: if_splits option.splits)

section \<open>Constructing the factory\<close>

text \<open>
  C9. Constructing the factory with persistence loads the mapping of the file into the
  Store (the empty mapping when the file is absent or unreadable) and registers nothing:
  the registry and \<^verbatim>\<open>list_bots\<close> are empty whatever the file holds, no worker thread is
  started and the file is not written.
\<close>

theorem factory_init_registers_nothing:
  "list_bots (fst (BotFactory_init True w)) = Map.empty
   \<and> bots (fst (BotFactory_init True w)) = Map.empty
   \<and> storage (fst (BotFactory_init True w)) =
       Some \<lparr>configs = (case disk w of Stored m \<Rightarrow> m | NoFile \<Rightarrow> Map.empty
                                      | Unreadable \<Rightarrow> Map.empty)\<rparr>
   \<and> threads (snd (BotFactory_init True w)) = threads w
   \<and> disk (snd (BotFactory_init True w)) = disk w"
  by (simp add: BotFactory_init_def BotStorage_init_def BotStorage_load_def list_bots_def logger_def
      split: file_state.splits)

lemma factory_init_with_records:
  "list_bots (fst (BotFactory_init True (ex_world\<lparr>disk := Stored [''c1'' \<mapsto> ex_config]\<rparr>))) ''c1''
     = None
   \<and> storage (fst (BotFactory_init True (ex_world\<lparr>disk := Stored [''c1'' \<mapsto> ex_config]\<rparr>)))
     = Some \<lparr>configs = [''c1'' \<mapsto> ex_config]\<rparr>"
  by (simp add: BotFactory_init_def BotStorage_init_def BotStorage_load_def list_bots_def logger_def
      ex_world_def)


section \<open>Operations on an id that is not registered\<close>

text \<open>
  C3, as stated, fails: \<^verbatim>\<open>stop_bot\<close> on an id that is not registered is not silent, it
  raises \<^verbatim>\<open>ValueError\<close> "not found".
\<close>

theorem stop_unknown_id_counterexample:
  "fst (stop_bot None ex_factory ''ghost'' ex_world) = Inl (ValueError ''Bot ghost not found'')"
  by (simp add: stop_bot_def ex_factory_def)

text \<open>
  C3, amended. For every id that is not registered, \<^verbatim>\<open>start_bot\<close> and \<^verbatim>\<open>stop_bot\<close>
  both raise \<^verbatim>\<open>ValueError\<close> "not found", and \<^verbatim>\<open>delete_bot\<close> returns normally; all
  three leave the registry, the Store and the world as they were.
\<close>

theorem unknown_id_operations:
  assumes "bots f i = None"
  shows "start_bot env f i w = (Inl (ValueError (''Bot '' @ i @ '' not found'')), f, w)
       \<and> stop_bot cl f i w = (Inl (ValueError (''Bot '' @ i @ '' not found'')), f, w)
       \<and> delete_bot cl wr f i w = (Inr (), f, w)"
  using assms by (simp add: start_bot_def stop_bot_def delete_bot_def)

theorem unknown_id_operations_witness:
  "bots (fst ex_running) ''ghost'' = None
   \<and> start_bot \<lparr>app_ctor = None, thread_start = None\<rparr> (fst ex_running) ''ghost'' (snd ex_running)
       = (Inl (ValueError ''Bot ghost not found''), fst ex_running, snd ex_running)
   \<and> stop_bot None (fst ex_running) ''ghost'' (snd ex_running)
       = (Inl (ValueError ''Bot ghost not found''), fst ex_running, snd ex_running)
   \<and> delete_bot None WriteOk (fst ex_running) ''ghost'' (snd ex_running)
       = (Inr (), fst ex_running, snd ex_running)"
proof -
  have h: "bots (fst ex_running) ''ghost'' = None"
    by (simp add: ex_running_eq)
  show ?thesis
    using h unknown_id_operations [OF h, of "\<lparr>app_ctor = None, thread_start = None\<rparr>"
        "snd ex_running" None WriteOk]
    by simp
qed

section \<open>Stopping a connection\<close>

text \<open>What \<^verbatim>\<open>stop_bot\<close> does to a registered connection that is running: it never
  raises; the flag is cleared when there is no handler or the handler closes, and left set
  when closing the handler raises.\<close>

lemma stop_running_connection:
  assumes "bots f i = Some b" and "running b"
  shows "stop_bot cl f i w =
           (if handler b = None \<or> cl = None
            then (Inr (), f\<lparr>bots := (bots f)(i \<mapsto> b\<lparr>running := False\<rparr>)\<rparr>,
                  logger INFO (''Bot '' @ bot_id b @ '' stopped'') w)
            else (Inr (), f, logger ERROR (''Error stopping bot '' @ bot_id b) w))"
  using assms
  by (auto simp: stop_bot_def BotInstance_stop_def fun_upd_idem split: option.splits)

text \<open>
  C2 does not hold of the code. The connection \<open>c1\<close> has been created and started and its
  worker has marked it running. When \<^verbatim>\<open>handler.close()\<close> raises, \<^verbatim>\<open>stop_bot\<close> logs
  the error and returns normally, but the assignment \<^verbatim>\<open>self.running = False\<close> stands
  after the call inside the \<^verbatim>\<open>try\<close> and is skipped: the connection is still marked
  running, and \<^verbatim>\<open>list_bots\<close> says so.
\<close>

theorem stop_close_failure_stays_running:
  "bots (fst ex_running) ''c1'' = Some ex_bot_running
   \<and> running ex_bot_running
   \<and> stop_bot (Some SlackApiError) (fst ex_running) ''c1'' (snd ex_running)
       = (Inr (), fst ex_running, logger ERROR ''Error stopping bot c1'' (snd ex_running))
   \<and> list_bots (fst (snd (stop_bot (Some SlackApiError) (fst ex_running) ''c1'' (snd ex_running))))
        ''c1''
       = Some \<lparr>st_agent_url = ''http://agent'', st_channel_id = None, st_running = True\<rparr>"
proof -
  have b: "bots (fst ex_running) ''c1'' = Some ex_bot_running"
    by (simp add: ex_running_eq)
  have s: "stop_bot (Some SlackApiError) (fst ex_running) ''c1'' (snd ex_running)
       = (Inr (), fst ex_running, logger ERROR ''Error stopping bot c1'' (snd ex_running))"
    using stop_running_connection [OF b ex_bot_running_fields(1), of "Some SlackApiError"
        "snd ex_running"]
    by (simp add: ex_bot_running_fields)
  have l: "list_bots (fst ex_running) ''c1''
       = Some \<lparr>st_agent_url = ''http://agent'', st_channel_id = None, st_running = True\<rparr>"
    by (simp add: list_bots_def ex_running_eq ex_bot_running_def ex_bot_started_def ex_bot_def)
  show ?thesis
    using b s l by (simp add: ex_bot_running_fields)
qed

text \<open>After that the connection is stuck: a further \<^verbatim>\<open>start_bot\<close> finds the flag set
  and does nothing.\<close>

lemma stop_close_failure_then_start:
  "start_bot \<lparr>app_ctor = None, thread_start = None\<rparr>
     (fst (snd (stop_bot (Some SlackApiError) (fst ex_running) ''c1'' (snd ex_running)))) ''c1''
     (snd (snd (stop_bot (Some SlackApiError) (fst ex_running) ''c1'' (snd ex_running))))
   = (Inr (), fst ex_running,
      logger WARNING ''Bot c1 is already running''
        (logger ERROR ''Error stopping bot c1'' (snd ex_running)))"
proof -
  have b: "bots (fst ex_running) ''c1'' = Some ex_bot_running"
    by (simp add: ex_running_eq)
  have s: "stop_bot (Some SlackApiError) (fst ex_running) ''c1'' (snd ex_running)
       = (Inr (), fst ex_running, logger ERROR ''Error stopping bot c1'' (snd ex_running))"
    using stop_running_connection [OF b ex_bot_running_fields(1), of "Some SlackApiError"
        "snd ex_running"]
    by (simp add: ex_bot_running_fields)
  show ?thesis
    unfolding s
    using b by (simp add: start_bot_def BotInstance_start_def ex_bot_running_fields fun_upd_idem)
qed

section \<open>Starting a connection\<close>

text \<open>What \<^verbatim>\<open>start_bot\<close> does to a registered connection that is marked running: it
  raises nothing, leaves the registry and the flag as they are, starts no worker thread, and
  writes the warning to the log.\<close>

lemma start_on_running_is_noop:
  assumes "bots f i = Some b" and "running b"
  shows "start_bot env f i w =
           (Inr (), f, logger WARNING (''Bot '' @ bot_id b @ '' is already running'') w)
       \<and> threads (snd (snd (start_bot env f i w))) = threads w"
  using assms by (simp add: start_bot_def BotInstance_start_def fun_upd_idem logger_def)

text \<open>So once a start has succeeded and the worker has marked the connection running, a
  second \<^verbatim>\<open>start_bot\<close> changes nothing but the log.\<close>

lemma start_after_worker_is_noop:
  assumes "bots f i = Some b"
    and "start_bot env f i w = (Inr (), f1, w1)"
    and "worker_step None f1 i w1 = (f2, w2)"
  shows "start_bot env' f2 i w2 =
           (Inr (), f2, logger WARNING (''Bot '' @ bot_id b @ '' is already running'') w2)"
  using assms
  by (auto simp: start_bot_def BotInstance_start_def worker_step_def run_bot_def Let_def
      fun_upd_idem split: if_splits option.splits)

text \<open>
  C4 does not hold of the code. \<^verbatim>\<open>start\<close> guards on \<^verbatim>\<open>self.running\<close> and warns
  that the bot is already running, but it does not set the flag: only \<^verbatim>\<open>run_bot\<close>, on
  the worker thread, does. The connection \<open>c1\<close> has been created and started once, which
  started one worker thread; that worker has not yet reached the assignment. A second
  \<^verbatim>\<open>start_bot\<close>, without a stop in between, finds the flag still false: it returns
  normally, writes no warning, and starts a second worker thread for \<open>c1\<close>.
\<close>

theorem start_twice_spawns_two_workers:
  "bots (fst (snd ex_created)) ''c1'' = Some ex_bot
   \<and> threads (snd (snd ex_created)) = []
   \<and> fst ex_started = Inr ()
   \<and> bots (fst (snd ex_started)) ''c1'' = Some ex_bot_started
   \<and> \<not> running ex_bot_started
   \<and> threads (snd (snd ex_started)) = [''c1'']
   \<and> start_bot \<lparr>app_ctor = None, thread_start = None\<rparr>
        (fst (snd ex_started)) ''c1'' (snd (snd ex_started))
       = (Inr (), fst (snd ex_started), (snd (snd ex_started))\<lparr>threads := [''c1'', ''c1'']\<rparr>)"
  by (simp add: ex_created_eq ex_started_eq start_bot_def BotInstance_start_def
      ex_bot_started_def ex_bot_def Let_def)

section \<open>The reply of the agent endpoint\<close>

text \<open>
  C5, as stated, fails: for a body with none of the keys \<^verbatim>\<open>response\<close>,
  \<^verbatim>\<open>message\<close>, \<^verbatim>\<open>text\<close> the call does not fail, it returns the empty string.
\<close>

theorem call_agent_no_key_counterexample:
  "fst (BotInstance_call_agent (Response 200 (Some (JObj []))) ex_bot (codepoints ''hello'')
          (Some ''U1'') (Some ''D1'') (Some ''1700000000.000100'') ex_world) = Inr (JStr [])"
  by (simp add: BotInstance_call_agent_def dict_get_def Let_def)

text \<open>A key that is present with a falsy value is passed over as well: the reply is not
  the value of the first key present.\<close>

lemma call_agent_falsy_first_key:
  "fst (BotInstance_call_agent
          (Response 200 (Some (JObj [(''response'', JStr []), (''message'', JStr ''hi'')])))
          ex_bot (codepoints ''hello'') (Some ''U1'') (Some ''D1'') (Some ''1700000000.000100'') ex_world)
     = Inr (JStr ''hi'')"
  by (simp add: BotInstance_call_agent_def dict_get_def Let_def)

text \<open>
  C5, amended. For every response whose status is not an error status and whose body is a
  JSON object, the call does not fail, whichever keys the body has. The reply is the value
  of \<^verbatim>\<open>response\<close> when that key is present with a truthy value; otherwise the value
  of \<^verbatim>\<open>message\<close> when that key is present with a truthy value; otherwise the value of
  \<^verbatim>\<open>text\<close> when that key is present, and the empty string when it is not.
\<close>

theorem call_agent_reply:
  assumes "\<not> (400 \<le> status \<and> status < 600)"
  shows "(\<exists>v. fst (BotInstance_call_agent (Response status (Some (JObj kvs))) b msg u c t w) = Inr v)
     \<and> (\<forall>v. dict_get kvs ''response'' = Some v \<and> truthy v \<longrightarrow>
           fst (BotInstance_call_agent (Response status (Some (JObj kvs))) b msg u c t w) = Inr v)
     \<and> (\<forall>v. (dict_get kvs ''response'' = None
              \<or> (\<exists>r. dict_get kvs ''response'' = Some r \<and> \<not> truthy r))
            \<and> dict_get kvs ''message'' = Some v \<and> truthy v \<longrightarrow>
           fst (BotInstance_call_agent (Response status (Some (JObj kvs))) b msg u c t w) = Inr v)
     \<and> ((dict_get kvs ''response'' = None
          \<or> (\<exists>r. dict_get kvs ''response'' = Some r \<and> \<not> truthy r))
        \<and> (dict_get kvs ''message'' = None
          \<or> (\<exists>m. dict_get kvs ''message'' = Some m \<and> \<not> truthy m)) \<longrightarrow>
           fst (BotInstance_call_agent (Response status (Some (JObj kvs))) b msg u c t w) =
             Inr (case dict_get kvs ''text'' of None \<Rightarrow> JStr [] | Some v \<Rightarrow> v))"
  using assms
  by (auto simp: BotInstance_call_agent_def Let_def split: option.splits)

theorem call_agent_reply_witness:
  "\<not> (400 \<le> (200::nat) \<and> (200::nat) < 600)
   \<and> dict_get [(''response'', JNull), (''message'', JStr ''hi''), (''text'', JStr ''x'')]
        ''response'' = Some JNull
   \<and> \<not> truthy JNull
   \<and> dict_get [(''response'', JNull), (''message'', JStr ''hi''), (''text'', JStr ''x'')]
        ''message'' = Some (JStr ''hi'')
   \<and> truthy (JStr ''hi'')
   \<and> fst (BotInstance_call_agent
        (Response 200 (Some (JObj [(''response'', JNull), (''message'', JStr ''hi''),
                                   (''text'', JStr ''x'')])))
        ex_bot (codepoints ''hello'') (Some ''U1'') (Some ''D1'') (Some ''1700000000.000100'') ex_world)
       = Inr (JStr ''hi'')"
proof -
  have s: "\<not> (400 \<le> (200::nat) \<and> (200::nat) < 600)" by simp
  have r: "dict_get [(''response'', JNull), (''message'', JStr ''hi''), (''text'', JStr ''x'')]
        ''response'' = Some JNull"
    and m: "dict_get [(''response'', JNull), (''message'', JStr ''hi''), (''text'', JStr ''x'')]
        ''message'' = Some (JStr ''hi'')"
    by (simp_all add: dict_get_def)
  show ?thesis
    using s r m call_agent_reply [OF s,
        of "[(''response'', JNull), (''message'', JStr ''hi''), (''text'', JStr ''x'')]"
           ex_bot "codepoints ''hello''" "Some ''U1''" "Some ''D1''" "Some ''1700000000.000100''" ex_world]
    by simp
qed

section \<open>A bare mention\<close>

text \<open>
  C7. A mention event is handled by \<^verbatim>\<open>handle_mention\<close>. Let the connection's identity be
  \<open>uid\<close>, cached or resolved by \<^verbatim>\<open>auth_test\<close> on this event, non-empty and without
  regular-expression metacharacters. If the text of the event, after removal of every
  \<^verbatim>\<open><@uid>\<close> and stripping of white space, is empty, the handler returns without a call
  to the agent and without a reply: the world is as before (no request, no message, no log
  line) and the bot has only its identity cached.
\<close>

theorem bare_mention_discarded:
  assumes "bot_user_id b = Some uid \<or> \<not> truthy_str (bot_user_id b) \<and> auth_test env = Inr uid"
    and "uid \<noteq> []" and "regex_literal uid"
    and "py_strip (re_sub (codepoints (''<@'' @ uid @ ''>'')) []
           (case ev_text ev of None \<Rightarrow> [] | Some t \<Rightarrow> t)) = []"
  shows "handle_mention env b ev w = (b\<lparr>bot_user_id := Some uid\<rparr>, w)
       \<and> posts (snd (handle_mention env b ev w)) = posts w
       \<and> says (snd (handle_mention env b ev w)) = says w"
  using assms
  by (auto simp: handle_mention_def BotInstance_handle_message_def clean_text_def Let_def)

text \<open>The mention token of \<open>U012AB\<close> and two texts made of it and white space: a space
  before and a no-break space (U+00A0) and an em space (U+2003) after; and the token
  followed by a no-break space alone.\<close>

lemma ex_token: "codepoints ''<@U012AB>'' = [60, 64, 85, 48, 49, 50, 65, 66, 62]"
  by (simp add: codepoints_def)

lemma ex_bare_texts:
  "py_strip (re_sub (codepoints ''<@U012AB>'') []
     (32 # codepoints ''<@U012AB>'' @ [0xA0, 0x2003])) = []"
  "py_strip (re_sub (codepoints ''<@U012AB>'') [] (codepoints ''<@U012AB>'' @ [0xA0])) = []"
  by (simp_all add: ex_token py_strip_def py_isspace_def)

theorem bare_mention_discarded_witness:
  "\<not> truthy_str (bot_user_id ex_bot_running) \<and> ''U012AB'' \<noteq> [] \<and> regex_literal ''U012AB''
   \<and> py_strip (re_sub (codepoints ''<@U012AB>'') []
        (32 # codepoints ''<@U012AB>'' @ [0xA0, 0x2003])) = []
   \<and> handle_mention
        \<lparr>auth_test = Inr ''U012AB'', http = Response 200 (Some (JObj [(''response'', JStr ''hi'')])),
         say_reply = None, say_apology = None\<rparr>
        ex_bot_running
        \<lparr>ev_user = Some ''U777'',
         ev_text = Some (32 # codepoints ''<@U012AB>'' @ [0xA0, 0x2003]),
         ev_channel = Some ''C1'',
         ev_thread_ts = None, ev_ts = Some ''1700000000.000100'', ev_subtype = None,
         ev_bot_id = None, ev_channel_type = Some ''channel''\<rparr>
        (snd ex_running)
       = (ex_bot_running\<lparr>bot_user_id := Some ''U012AB''\<rparr>, snd ex_running)"
proof -
  let ?env = "\<lparr>auth_test = Inr ''U012AB'',
               http = Response 200 (Some (JObj [(''response'', JStr ''hi'')])),
               say_reply = None, say_apology = None\<rparr>"
  let ?ev = "\<lparr>ev_user = Some ''U777'',
         ev_text = Some (32 # codepoints ''<@U012AB>'' @ [0xA0, 0x2003]),
         ev_channel = Some ''C1'',
         ev_thread_ts = None, ev_ts = Some ''1700000000.000100'', ev_subtype = None,
         ev_bot_id = None, ev_channel_type = Some ''channel''\<rparr>"
  have a: "bot_user_id ex_bot_running = Some ''U012AB''
           \<or> \<not> truthy_str (bot_user_id ex_bot_running) \<and> auth_test ?env = Inr ''U012AB''"
    by (simp add: ex_bot_running_fields)
  have n: "''U012AB'' \<noteq> []" by simp
  have l: "regex_literal ''U012AB''" by (simp add: regex_literal_def)
  have t: "py_strip (re_sub (codepoints (''<@'' @ ''U012AB'' @ ''>'')) []
             (case ev_text ?ev of None \<Rightarrow> [] | Some t \<Rightarrow> t)) = []"
    using ex_bare_texts(1) by simp
  show ?thesis
    using l ex_bare_texts(1) bare_mention_discarded [OF a n l t, of "snd ex_running"]
    by (simp add: ex_bot_running_fields)
qed

text \<open>The same for the token followed by a no-break space alone, evaluated on the
  handler: no request is posted and nothing is said.\<close>

lemma mention_nbsp_discarded:
  "handle_mention
     \<lparr>auth_test = Inr ''U012AB'', http = Response 200 (Some (JObj [(''response'', JStr ''hi'')])),
      say_reply = None, say_apology = None\<rparr>
     ex_bot_running
     \<lparr>ev_user = Some ''U777'', ev_text = Some (codepoints ''<@U012AB>'' @ [0xA0]),
      ev_channel = Some ''C1'',
      ev_thread_ts = None, ev_ts = Some ''1700000000.000100'', ev_subtype = None,
      ev_bot_id = None, ev_channel_type = Some ''channel''\<rparr>
     ex_world
   = (ex_bot_running\<lparr>bot_user_id := Some ''U012AB''\<rparr>, ex_world)"
  using ex_bare_texts(2)
  by (simp add: handle_mention_def BotInstance_handle_message_def clean_text_def Let_def
      ex_bot_running_fields)

text \<open>When the identity cannot be resolved the event is dropped too, with an error in the
  log: no request and no reply.\<close>

lemma mention_auth_failure_no_reply:
  assumes "\<not> truthy_str (bot_user_id b)" and "auth_test env = Inl e"
  shows "posts (snd (handle_mention env b ev w)) = posts w
       \<and> says (snd (handle_mention env b ev w)) = says w"
  using assms
  by (simp add: handle_mention_def BotInstance_handle_message_def Let_def logger_def)

text \<open>A mention with text left over is forwarded: the handler calls the agent with the
  cleaned text and says the reply.\<close>

lemma mention_with_text_forwarded:
  "says (snd (handle_mention
        \<lparr>auth_test = Inr ''U012AB'', http = Response 200 (Some (JObj [(''response'', JStr ''hi'')])),
         say_reply = None, say_apology = None\<rparr>
        ex_bot_running
        \<lparr>ev_user = Some ''U777'', ev_text = Some (codepoints ''<@U012AB> hello''),
         ev_channel = Some ''C1'',
         ev_thread_ts = None, ev_ts = Some ''1700000000.000100'', ev_subtype = None,
         ev_bot_id = None, ev_channel_type = Some ''channel''\<rparr>
        ex_world))
     = [(JStr ''hi'', Some ''1700000000.000100'')]
   \<and> map (p_message \<circ> snd) (posts (snd (handle_mention
        \<lparr>auth_test = Inr ''U012AB'', http = Response 200 (Some (JObj [(''response'', JStr ''hi'')])),
         say_reply = None, say_apology = None\<rparr>
        ex_bot_running
        \<lparr>ev_user = Some ''U777'', ev_text = Some (codepoints ''<@U012AB> hello''),
         ev_channel = Some ''C1'',
         ev_thread_ts = None, ev_ts = Some ''1700000000.000100'', ev_subtype = None,
         ev_bot_id = None, ev_channel_type = Some ''channel''\<rparr>
        ex_world)))
     = [codepoints ''hello'']"
  by (simp add: handle_mention_def BotInstance_handle_message_def clean_text_def Let_def
      BotInstance_call_agent_def dict_get_def say_def logger_def py_strip_def py_isspace_def
      codepoints_def ex_bot_running_def ex_bot_started_def ex_bot_def ex_world_def)

section \<open>Listing the connections\<close>

text \<open>
  C8. If two registries differ only in secrets (the bot token, the app token and the
  signing secret, also where the Slack objects keep them), \<^verbatim>\<open>list_bots\<close> returns the
  same mapping for both; and the status of each registered id is made of the agent url, the
  channel id and the running flag of its connection, and of nothing else.
\<close>

theorem list_bots_hides_secrets:
  assumes "\<forall>i. map_option erase_secrets (bots f1 i) = map_option erase_secrets (bots f2 i)"
  shows "list_bots f1 = list_bots f2
       \<and> (\<forall>i. list_bots f1 i =
                map_option (\<lambda>b. \<lparr>st_agent_url = agent_url b, st_channel_id = channel_id b,
                                  st_running = running b\<rparr>) (bots f1 i))"
proof -
  have pub: "agent_url x = agent_url y \<and> channel_id x = channel_id y \<and> running x = running y"
    if "erase_secrets x = erase_secrets y" for x y
  proof -
    have "agent_url (erase_secrets x) = agent_url (erase_secrets y)"
      "channel_id (erase_secrets x) = channel_id (erase_secrets y)"
      "running (erase_secrets x) = running (erase_secrets y)"
      using that by simp_all
    then show ?thesis by (simp add: erase_secrets_def)
  qed
  have "list_bots f1 i = list_bots f2 i" for i
  proof -
    from assms have e: "map_option erase_secrets (bots f1 i) = map_option erase_secrets (bots f2 i)"
      by blast
    show ?thesis
    proof (cases "bots f1 i")
      case None
      with e have "bots f2 i = None" by simp
      with None show ?thesis by (simp add: list_bots_def)
    next
      case (Some x)
      with e obtain y where y: "bots f2 i = Some y" "erase_secrets x = erase_secrets y"
        by (cases "bots f2 i") auto
      with Some pub [OF y(2)] show ?thesis by (simp add: list_bots_def)
    qed
  qed
  then have "list_bots f1 = list_bots f2" by (rule ext)
  moreover have "\<forall>i. list_bots f1 i =
                map_option (\<lambda>b. \<lparr>st_agent_url = agent_url b, st_channel_id = channel_id b,
                                  st_running = running b\<rparr>) (bots f1 i)"
    by (simp add: list_bots_def split: option.splits)
  ultimately show ?thesis by blast
qed

theorem list_bots_hides_secrets_witness:
  "(\<forall>i. map_option erase_secrets (bots (fst (snd ex_created)) i)
         = map_option erase_secrets (bots ex_factory_other i))
   \<and> bots (fst (snd ex_created)) ''c1'' \<noteq> bots ex_factory_other ''c1''
   \<and> list_bots (fst (snd ex_created)) = list_bots ex_factory_other
   \<and> list_bots ex_factory_other ''c1''
       = Some \<lparr>st_agent_url = ''http://agent'', st_channel_id = None, st_running = False\<rparr>"
proof -
  have h: "\<forall>i. map_option erase_secrets (bots (fst (snd ex_created)) i)
         = map_option erase_secrets (bots ex_factory_other i)"
    by (simp add: ex_created_eq ex_factory_other_def erase_secrets_def ex_bot_def)
  have d: "bots (fst (snd ex_created)) ''c1'' \<noteq> bots ex_factory_other ''c1''"
    by (simp add: ex_created_eq ex_factory_other_def ex_bot_def)
  have l: "list_bots (fst (snd ex_created)) ''c1''
       = Some \<lparr>st_agent_url = ''http://agent'', st_channel_id = None, st_running = False\<rparr>"
    by (simp add: list_bots_def ex_created_eq ex_bot_def)
  show ?thesis
    using h d l list_bots_hides_secrets [OF h] by simp
qed

section \<open>The dictionary returned by \<^verbatim>\<open>get_all\<close>\<close>

text \<open>What the caller does to the dictionary at \<open>r\<close> changes no other dictionary that is
  allocated, and not the file.\<close>

lemma dict_apply_frame:
  "r < next_addr h \<Longrightarrow>
   next_addr h \<le> next_addr (dict_apply r h op) \<and> disk (dict_apply r h op) = disk h \<and>
   (\<forall>x. x < next_addr h \<and> x \<noteq> r \<longrightarrow> objs (dict_apply r h op) x = objs h x)"
  by (cases op) (auto simp: Let_def)

lemma dict_ops_frame:
  "r < next_addr h \<Longrightarrow>
   next_addr h \<le> next_addr (dict_ops r ops h) \<and> disk (dict_ops r ops h) = disk h \<and>
   (\<forall>x. x < next_addr h \<and> x \<noteq> r \<longrightarrow> objs (dict_ops r ops h) x = objs h x)"
proof (induction ops arbitrary: h)
  case Nil
  then show ?case by (simp add: dict_ops_def)
next
  case (Cons op ops)
  let ?h1 = "dict_apply r h op"
  from Cons.prems have f1: "next_addr h \<le> next_addr ?h1" "disk ?h1 = disk h"
    "\<forall>x. x < next_addr h \<and> x \<noteq> r \<longrightarrow> objs ?h1 x = objs h x"
    using dict_apply_frame [of r h op] by auto
  then have "r < next_addr ?h1" using Cons.prems by simp
  from Cons.IH [OF this] have f2: "next_addr ?h1 \<le> next_addr (dict_ops r ops ?h1)"
    "disk (dict_ops r ops ?h1) = disk ?h1"
    "\<forall>x. x < next_addr ?h1 \<and> x \<noteq> r \<longrightarrow> objs (dict_ops r ops ?h1) x = objs ?h1 x"
    by auto
  have e: "dict_ops r (op # ops) h = dict_ops r ops ?h1" by (simp add: dict_ops_def)
  show ?case unfolding e using f1 f2 by auto
qed

text \<open>
  C10. Let the Store's \<^verbatim>\<open>configs\<close> be the dictionary at an allocated address \<open>a\<close> of a
  heap without dangling references. \<^verbatim>\<open>get_all\<close> returns a dictionary at another address
  with the same entries; and whatever entries the caller then sets, replaces, deletes or
  clears in the returned dictionary, every dictionary that existed before the call is as it
  was, so the configurations the Store holds in memory are unchanged, and so is the file.
\<close>

theorem get_all_returns_copy:
  assumes "a < next_addr h" and "heap_closed h"
  shows "fst (BotStorage_get_all a h) \<noteq> a
       \<and> objs (snd (BotStorage_get_all a h)) (fst (BotStorage_get_all a h)) = objs h a
       \<and> (\<forall>x. x < next_addr h \<longrightarrow>
             objs (dict_ops (fst (BotStorage_get_all a h)) ops (snd (BotStorage_get_all a h))) x
               = objs h x)
       \<and> store_configs (dict_ops (fst (BotStorage_get_all a h)) ops (snd (BotStorage_get_all a h))) a
           = store_configs h a
       \<and> disk (dict_ops (fst (BotStorage_get_all a h)) ops (snd (BotStorage_get_all a h)))
           = disk h"
proof -
  let ?r = "fst (BotStorage_get_all a h)"
  let ?h1 = "snd (BotStorage_get_all a h)"
  let ?h2 = "dict_ops ?r ops ?h1"
  have r: "?r = next_addr h" and n1: "next_addr ?h1 = Suc (next_addr h)"
    and d1: "disk ?h1 = disk h"
    and o1: "\<And>x. x \<noteq> next_addr h \<Longrightarrow> objs ?h1 x = objs h x"
    and c: "objs ?h1 ?r = objs h a"
    by (simp_all add: BotStorage_get_all_def dict_copy_def Let_def)
  have "?r < next_addr ?h1" using r n1 by simp
  from dict_ops_frame [OF this, of ops]
  have f: "disk ?h2 = disk ?h1" "\<forall>x. x < next_addr ?h1 \<and> x \<noteq> ?r \<longrightarrow> objs ?h2 x = objs ?h1 x"
    by auto
  have old: "\<forall>x. x < next_addr h \<longrightarrow> objs ?h2 x = objs h x"
    using f(2) r n1 o1 by auto
  have dk: "disk ?h2 = disk h" using f(1) d1 by simp
  have sc: "store_configs ?h2 a = store_configs h a"
  proof
    fix k
    show "store_configs ?h2 a k = store_configs h a k"
    proof (cases "objs h a k")
      case None
      then show ?thesis using old assms(1) by (simp add: store_configs_def)
    next
      case (Some v)
      show ?thesis
      proof (cases v)
        case (PyRef p)
        with Some assms have "p < next_addr h" unfolding heap_closed_def by blast
        with old have "objs ?h2 p = objs h p" by simp
        then show ?thesis using Some PyRef old assms(1) by (simp add: store_configs_def)
      qed (use Some old assms(1) in \<open>simp_all add: store_configs_def\<close>)
    qed
  qed
  have ne: "?r \<noteq> a" using r assms(1) by simp
  show ?thesis using ne c old sc dk by blast
qed

lemma ex_heap_closed: "heap_closed ex_heap"
  by (auto simp: heap_closed_def ex_heap_def split: if_splits)

lemma ex_heap_configs: "store_configs ex_heap 0 = [''c1'' \<mapsto> ex_config]"
  by (rule ext) (simp add: store_configs_def ex_heap_def config_of_def str_field_def ex_config_def)

theorem get_all_returns_copy_witness:
  "(0::nat) < next_addr ex_heap \<and> heap_closed ex_heap
   \<and> fst (BotStorage_get_all 0 ex_heap) = 2
   \<and> objs (dict_ops 2 ex_ops (snd (BotStorage_get_all 0 ex_heap))) 2 = Map.empty
   \<and> store_configs (dict_ops (fst (BotStorage_get_all 0 ex_heap)) ex_ops
        (snd (BotStorage_get_all 0 ex_heap))) 0 = [''c1'' \<mapsto> ex_config]
   \<and> disk (dict_ops (fst (BotStorage_get_all 0 ex_heap)) ex_ops
        (snd (BotStorage_get_all 0 ex_heap))) = Stored [''c1'' \<mapsto> ex_config]"
proof -
  have a: "(0::nat) < next_addr ex_heap" by (simp add: ex_heap_def)
  have r: "fst (BotStorage_get_all 0 ex_heap) = 2"
    by (simp add: BotStorage_get_all_def dict_copy_def ex_heap_def Let_def)
  have e: "objs (dict_ops 2 ex_ops (snd (BotStorage_get_all 0 ex_heap))) 2 = Map.empty"
    by (simp add: dict_ops_def ex_ops_def BotStorage_get_all_def dict_copy_def ex_heap_def Let_def)
  have d: "disk ex_heap = Stored [''c1'' \<mapsto> ex_config]" by (simp add: ex_heap_def)
  show ?thesis
    using a r e d ex_heap_configs ex_heap_closed
      get_all_returns_copy [OF a ex_heap_closed, of ex_ops]
    by simp
qed

text \<open>The copy is shallow: the returned dictionary refers to the very configuration
  dictionaries the Store refers to. A caller who changes one of those in place, rather than
  an entry of the returned dictionary, does change what the Store holds.\<close>

lemma get_all_shares_inner_dicts:
  "objs (snd (BotStorage_get_all 0 ex_heap)) (fst (BotStorage_get_all 0 ex_heap)) ''c1''
     = Some (PyRef 1)
   \<and> store_configs (dict_apply 1 (snd (BotStorage_get_all 0 ex_heap))
                      (SetItem ''agent_url'' (PyStr ''http://evil''))) 0 ''c1''
     = Some (ex_config\<lparr>cfg_agent_url := ''http://evil''\<rparr>)"
  by (simp add: BotStorage_get_all_def dict_copy_def ex_heap_def Let_def store_configs_def
      config_of_def str_field_def ex_config_def)


end
